theory Spec2Isabelle
  imports Main "HOL-Library.Sublist"
begin

section \<open>The mermaid workflow-status diagrams\<close>

text \<open>
  The repository holds two \<^verbatim>\<open>stateDiagram\<close> blocks. A block is a direction, a list of
  transition lines \<^verbatim>\<open>A --> B:label\<close> (the label is optional, and \<^verbatim>\<open>[*]\<close> is mermaid's
  start/end marker) and a list of state description lines \<^verbatim>\<open>Id:description\<close>.
  Both blocks are transcribed line by line, in the order of the source.
\<close>

datatype vertex = Star | State string

type_synonym transition = "vertex \<times> vertex \<times> string option"

record diagram =
  direction :: string
  transitions :: "transition list"
  descriptions :: "(string \<times> string) list"

text \<open>The block of \<^verbatim>\<open>src/unnamed/part_000\<close>, lines 4 to 32.\<close>

definition workflow_diagram :: diagram where
  "workflow_diagram = \<lparr>
     direction = ''LR'',
     transitions = [
       (Star, State ''Queued'', Some ''Workflow Submitted''),
       (State ''Queued'', State ''Running'', Some ''Started First Step''),
       (State ''Queued'', State ''Failed'', Some ''Problem starting First Step''),
       (State ''Running'', State ''InProgress'', Some ''Succeeded Non-Terminal Step''),
       (State ''InProgress'', State ''Running'', Some ''Started Next Step''),
       (State ''Queued'', State ''Cancelled'', Some ''Cancelled by User''),
       (State ''Running'', State ''Cancelled'', Some ''Cancelled by User''),
       (State ''Running'', State ''Completed'', Some ''Succeeded Final Step''),
       (State ''Paused'', State ''Running'', Some ''Resumed by User''),
       (State ''Running'', State ''Paused'', Some ''Paused by User''),
       (State ''InProgress'', State ''Paused'', Some ''Paused by User''),
       (State ''InProgress'', State ''Cancelled'', Some ''Cancelled by User''),
       (State ''Failed'', State ''InProgress'', Some ''Retrying Step''),
       (State ''Failed'', State ''Queued'', Some ''Resubmitted by User''),
       (State ''Cancelled'', State ''InProgress'', Some ''Retrying Step''),
       (State ''Cancelled'', State ''Queued'', Some ''Resubmitted by User''),
       (State ''Completed'', State ''Queued'', Some ''Resubmitted by User''),
       (State ''Queued'', State ''Paused'', Some ''Paused by User''),
       (State ''Paused'', State ''Queued'', Some ''Resumed by User'')],
     descriptions = [
       (''Queued'', ''queued''),
       (''Running'', ''running''),
       (''Failed'', ''failed''),
       (''InProgress'', ''in_progress''),
       (''Cancelled'', ''cancelled''),
       (''Completed'', ''completed''),
       (''Paused'', ''paused'')] \<rparr>"

text \<open>The block appended to \<^verbatim>\<open>src/node_notebook.ipynb\<close>, lines 412 to 436.\<close>

definition workflow_diagram_appended :: diagram where
  "workflow_diagram_appended = \<lparr>
     direction = ''LR'',
     transitions = [
       (Star, State ''Queued'', Some ''Workflow Submitted''),
       (State ''Queued'', State ''Running'', Some ''Start Step''),
       (State ''Queued'', State ''Failed'', Some ''Error starting Step''),
       (State ''Queued'', State ''Cancelled'', Some ''Cancelled''),
       (State ''Running'', State ''Cancelled'', Some ''Cancelled''),
       (State ''Running'', State ''Completed'', Some ''Succeeded Final Step''),
       (State ''Running'', State ''Failed'', Some ''Error during Step''),
       (State ''Paused'', State ''Running'', Some ''Resumed''),
       (State ''Running'', State ''Paused'', Some ''Paused''),
       (State ''Failed'', State ''Queued'', Some ''Resubmitted/Retried''),
       (State ''Cancelled'', State ''Queued'', Some ''Resubmitted/Retried''),
       (State ''Queued'', State ''Paused'', Some ''Paused''),
       (State ''Paused'', State ''Queued'', Some ''Resumed''),
       (State ''Completed'', Star, None),
       (State ''Cancelled'', Star, None),
       (State ''Failed'', Star, None)],
     descriptions = [
       (''Queued'', ''queued''),
       (''Running'', ''running''),
       (''Failed'', ''failed''),
       (''Cancelled'', ''cancelled''),
       (''Completed'', ''completed''),
       (''Paused'', ''paused'')] \<rparr>"

text \<open>
  The states of a diagram are the identifiers that occur as an end of a transition or
  carry a description; \<^verbatim>\<open>[*]\<close> is not a state. A state is displayed under its description,
  or under its identifier when it has none.
\<close>

fun vertex_ids :: "vertex \<Rightarrow> string list" where
  "vertex_ids Star = []"
| "vertex_ids (State s) = [s]"

definition state_ids :: "diagram \<Rightarrow> string list" where
  "state_ids d =
     remdups (concat (map (\<lambda>(a, b, l). vertex_ids a @ vertex_ids b) (transitions d))
              @ map fst (descriptions d))"

definition display :: "diagram \<Rightarrow> string \<Rightarrow> string" where
  "display d s = (case map_of (descriptions d) s of Some n \<Rightarrow> n | None \<Rightarrow> s)"

definition state_names :: "diagram \<Rightarrow> string set" where
  "state_names d = set (map (display d) (state_ids d))"

text \<open>A transition with its ends and label displayed, so that two diagrams compare by
  what they show rather than by their internal identifiers.\<close>

fun display_vertex :: "diagram \<Rightarrow> vertex \<Rightarrow> vertex" where
  "display_vertex d Star = Star"
| "display_vertex d (State s) = State (display d s)"

definition labelled_transitions :: "diagram \<Rightarrow> transition set" where
  "labelled_transitions d =
     set (map (\<lambda>(a, b, l). (display_vertex d a, display_vertex d b, l)) (transitions d))"

definition edges :: "diagram \<Rightarrow> (vertex \<times> vertex) list" where
  "edges d = map (\<lambda>(a, b, l). (display_vertex d a, display_vertex d b)) (transitions d)"

definition step :: "diagram \<Rightarrow> vertex \<Rightarrow> vertex \<Rightarrow> bool" where
  "step d a b = ((a, b) \<in> set (edges d))"

definition outgoing :: "diagram \<Rightarrow> vertex \<Rightarrow> (vertex \<times> string option) list" where
  "outgoing d a =
     map (\<lambda>(a', b, l). (display_vertex d b, l))
       (filter (\<lambda>(a', b, l). display_vertex d a' = a) (transitions d))"

definition the_seven_states :: "string set" where
  "the_seven_states =
     {''queued'', ''running'', ''in_progress'', ''paused'', ''failed'', ''cancelled'',
      ''completed''}"


text \<open>The claim that the two blocks draw one machine: the same displayed states and the
  same labelled transitions.\<close>

definition same_machine :: "diagram \<Rightarrow> diagram \<Rightarrow> bool" where
  "same_machine d e =
     (state_names d = state_names e \<and> labelled_transitions d = labelled_transitions e)"

section \<open>The example nodes of the node notebook\<close>

text \<open>
  The notebook derives its node classes from the framework's \<^verbatim>\<open>RestNode\<close>. Of the
  framework's object only what the handlers touch is modelled: the logger (the list of
  the messages it was given) and, for \<^verbatim>\<open>ExampleNodeWithUpdates\<close>, the attributes
  \<^verbatim>\<open>node_state\<close> and \<^verbatim>\<open>node_status\<close>. Inheritance is record extension; the fields of
  \<^verbatim>\<open>NodeStatus\<close> other than \<^verbatim>\<open>busy\<close> live in the record's extension part.
\<close>

datatype log_entry = Log string | LogInfo string

record lifecycle_node =
  logger :: "log_entry list"

definition startup_handler :: "'a lifecycle_node_scheme \<Rightarrow> 'a lifecycle_node_scheme" where
  "startup_handler self = self\<lparr>logger := logger self @ [LogInfo ''Node is starting up...'']\<rparr>"

definition shutdown_handler :: "'a lifecycle_node_scheme \<Rightarrow> 'a lifecycle_node_scheme" where
  "shutdown_handler self = self\<lparr>logger := logger self @ [LogInfo ''Node is shutting down...'']\<rparr>"

text \<open>Python's \<^verbatim>\<open>str\<close> of an integer, which the f-string of \<^verbatim>\<open>example_action\<close> applies
  to \<^verbatim>\<open>arg2\<close>.\<close>

function str_nat :: "nat \<Rightarrow> string" where
  "str_nat n = (if n < 10 then [''0123456789'' ! n]
                else str_nat (n div 10) @ [''0123456789'' ! (n mod 10)])"
  by pat_completeness auto
termination
  by (relation "measure id") auto

definition str_int :: "int \<Rightarrow> string" where
  "str_int i = (if i < 0 then ''-'' @ str_nat (nat (- i)) else str_nat (nat i))"

text \<open>The two results the action builds: \<^verbatim>\<open>ActionFailed(errors=[...])\<close> and
  \<^verbatim>\<open>ActionSucceeded()\<close>.\<close>

datatype action_result = ActionFailed "string list" | ActionSucceeded

definition example_action ::
  "string \<Rightarrow> int \<Rightarrow> 'a lifecycle_node_scheme \<Rightarrow> action_result \<times> 'a lifecycle_node_scheme" where
  "example_action arg1 arg2 self =
     (let self' = self\<lparr>logger := logger self @
            [Log (''Action called with arg1: '' @ arg1 @ '', arg2: '' @ str_int arg2)]\<rparr>
      in if arg2 < 0 then (ActionFailed [''arg2 must be non-negative''], self')
         else (ActionSucceeded, self'))"

text \<open>
  \<^verbatim>\<open>ExampleNodeWithUpdates\<close>. A dictionary lookup of a missing key raises \<^verbatim>\<open>KeyError\<close>.
  \<^verbatim>\<open>state_handler\<close> assigns a new dictionary literal with the single key; Python's
  \<^verbatim>\<open>%\<close> with the positive divisor 2 is \<open>mod\<close> on \<open>int\<close>.
\<close>

datatype error = KeyError string

record node_status =
  busy :: bool

record 's updates_node = lifecycle_node +
  node_state :: "string \<rightharpoonup> int"
  node_status :: "'s node_status_scheme"

definition state_handler ::
  "('s, 'a) updates_node_scheme \<Rightarrow> error + ('s, 'a) updates_node_scheme" where
  "state_handler self =
     (case node_state self ''some_state_key'' of
        None \<Rightarrow> Inl (KeyError ''some_state_key'')
      | Some v \<Rightarrow> Inr (self\<lparr>node_state := [''some_state_key'' \<mapsto> v + 1]\<rparr>))"

definition status_handler ::
  "('s, 'a) updates_node_scheme \<Rightarrow> error + ('s, 'a) updates_node_scheme" where
  "status_handler self =
     (case node_state self ''some_state_key'' of
        None \<Rightarrow> Inl (KeyError ''some_state_key'')
      | Some v \<Rightarrow>
          if v mod 2 = 0 then Inr (self\<lparr>node_status := (node_status self)\<lparr>busy := True\<rparr>\<rparr>)
          else Inr (self\<lparr>node_status := (node_status self)\<lparr>busy := False\<rparr>\<rparr>))"

text \<open>
  The objects of the class: one is created with the class attribute
  \<^verbatim>\<open>node_state = {"some_state_key": 0}\<close> (its status and logger come from the framework),
  and the only code that acts on it is its four handlers, called in any order.
\<close>

inductive reachable :: "('s, 'a) updates_node_scheme \<Rightarrow> bool" where
  created: "node_state self = [''some_state_key'' \<mapsto> 0] \<Longrightarrow> reachable self"
| after_startup: "reachable self \<Longrightarrow> reachable (startup_handler self)"
| after_shutdown: "reachable self \<Longrightarrow> reachable (shutdown_handler self)"
| after_state: "reachable self \<Longrightarrow> state_handler self = Inr self' \<Longrightarrow> reachable self'"
| after_status: "reachable self \<Longrightarrow> status_handler self = Inr self' \<Longrightarrow> reachable self'"



subsection \<open>The client cells\<close>

text \<open>
  Every cell that talks to a node has the shape
  \<^verbatim>\<open>with node_client(example_node, RestNodeClient(url=...)) as client: ...\<close>.
  A cell is recorded as the class of \<^verbatim>\<open>example_node\<close> at that point, the url given to
  \<^verbatim>\<open>RestNodeClient\<close>, and the calls written on \<^verbatim>\<open>client\<close>, in the order in which they
  run when each returns (the loop of ten rounds unrolled), each by the name of the
  operation and its arguments.
\<close>

datatype pyval = PStr string | PInt int

record action_request =
  action_name :: string
  args :: "(string \<times> pyval) list"

datatype client_arg = ArgStr string | ArgRequest action_request

record client_call =
  operation :: string
  arguments :: "client_arg list"

record client_cell =
  node_class :: string
  client_url :: string
  client_calls :: "client_call list"

definition send_action :: "(string \<times> pyval) list \<Rightarrow> client_call" where
  "send_action a =
     \<lparr>operation = ''send_action'',
      arguments = [ArgRequest \<lparr>action_name = ''example_action'', args = a\<rparr>]\<rparr>"

definition node_notebook_cells :: "client_cell list" where
  "node_notebook_cells = [
     \<lparr>node_class = ''ExampleRobotNode'', client_url = ''http://localhost:2000'',
      client_calls = [\<lparr>operation = ''get_info'', arguments = []\<rparr>]\<rparr>,
     \<lparr>node_class = ''ExampleNodeWithLifecycle'', client_url = ''http://localhost:2000'',
      client_calls = [\<lparr>operation = ''get_status'', arguments = []\<rparr>]\<rparr>,
     \<lparr>node_class = ''ExampleNodeWithUpdates'', client_url = ''http://localhost:2000'',
      client_calls = concat (replicate 10
        [\<lparr>operation = ''get_state'', arguments = []\<rparr>,
         \<lparr>operation = ''get_status'', arguments = []\<rparr>])\<rparr>,
     \<lparr>node_class = ''ExampleNodeWithAction'', client_url = ''http://localhost:2000'',
      client_calls = [send_action [(''arg1'', PStr ''Hello''), (''arg2'', PInt 42)]]\<rparr>,
     \<lparr>node_class = ''ExampleNodeWithAction'', client_url = ''http://localhost:2000'',
      client_calls = [send_action [(''arg1'', PStr ''Hello'')]]\<rparr>,
     \<lparr>node_class = ''ExampleNodeWithAction'', client_url = ''http://localhost:2000'',
      client_calls = [\<lparr>operation = ''get_status'', arguments = []\<rparr>,
                      send_action [(''arg1'', PStr ''Hello''), (''arg2'', PInt (- 42))]]\<rparr>,
     \<lparr>node_class = ''ExampleNodeWithAction'', client_url = ''http://localhost:2000'',
      client_calls = [\<lparr>operation = ''get_info'', arguments = []\<rparr>]\<rparr>,
     \<lparr>node_class = ''ExampleNodeWithAction'', client_url = ''http://localhost:2000'',
      client_calls = [
        \<lparr>operation = ''send_admin_command'', arguments = [ArgStr ''lock'']\<rparr>,
        send_action [(''arg1'', PStr ''Hello''), (''arg2'', PInt 0)],
        \<lparr>operation = ''send_admin_command'', arguments = [ArgStr ''unlock'']\<rparr>,
        send_action [(''arg1'', PStr ''Hello''), (''arg2'', PInt 0)]]\<rparr>]"

definition all_client_calls :: "client_call list" where
  "all_client_calls = concat (map client_calls node_notebook_cells)"


section \<open>The experiment notebook\<close>

text \<open>The class attributes of \<^verbatim>\<open>ExampleExperimentApplication\<close>.\<close>

record experiment_design =
  experiment_name :: string
  experiment_description :: string

record experiment_application =
  url :: string
  experiment_design :: experiment_design

definition ExampleExperimentApplication :: experiment_application where
  "ExampleExperimentApplication =
     \<lparr>url = ''http://localhost:8002/'',
      experiment_design = \<lparr>experiment_name = ''Example Experiment'',
                experiment_description = ''An Example Experiment''\<rparr>\<rparr>"

subsection \<open>The resource cleanup sequence\<close>

text \<open>
  The statements of the cell from \<^verbatim>\<open>add_resource\<close> to the \<^verbatim>\<open>with\<close> block. Every call goes
  to the framework's clients, whose code is not in the repository: a call either returns
  a value or raises, and which of the two is decided by the world, a function of the
  calls made so far and of the call. An exception is an instance of a subclass of
  \<^verbatim>\<open>Exception\<close>, or of another subclass of \<^verbatim>\<open>BaseException\<close> (\<^verbatim>\<open>KeyboardInterrupt\<close>,
  \<^verbatim>\<open>SystemExit\<close>, \<^verbatim>\<open>GeneratorExit\<close>); the string is the name of its class.
\<close>

datatype exc = ExceptionInstance string | OtherBaseException string

fun isinstance_Exception :: "exc \<Rightarrow> bool" where
  "isinstance_Exception (ExceptionInstance c) = True"
| "isinstance_Exception (OtherBaseException c) = False"

record asset =
  resource_name :: string
  resource_type :: string

datatype ('v, 'w) call =
    add_resource asset
  | pop string
  | push string 'v
  | manage_experiment string string
  | ctx_enter
  | ctx_exit "exc option"
  | start_workflow 'w
  | pause_experiment 'v
  | check_experiment_status

type_synonym ('v, 'w) world = "('v, 'w) call list \<Rightarrow> ('v, 'w) call \<Rightarrow> exc + 'v"

text \<open>A statement maps the calls made so far to its outcome and the calls made after it.
  A raised exception is kept with the call that raised it.\<close>

type_synonym ('v, 'w, 'a) prog =
  "('v, 'w) call list \<Rightarrow> ((('v, 'w) call \<times> exc) + 'a) \<times> ('v, 'w) call list"

definition ext :: "('v, 'w) world \<Rightarrow> ('v, 'w) call \<Rightarrow> ('v, 'w, 'v) prog" where
  "ext w c tr = (case w tr c of Inl e \<Rightarrow> (Inl (c, e), tr @ [c]) | Inr v \<Rightarrow> (Inr v, tr @ [c]))"

definition and_then :: "('v, 'w, 'a) prog \<Rightarrow> ('a \<Rightarrow> ('v, 'w, 'b) prog) \<Rightarrow> ('v, 'w, 'b) prog" where
  "and_then m f tr = (case m tr of (Inl x, tr') \<Rightarrow> (Inl x, tr') | (Inr a, tr') \<Rightarrow> f a tr')"

text \<open>\<^verbatim>\<open>try: ... except Exception: pass\<close>\<close>

definition try_except_Exception_pass :: "('v, 'w, 'a) prog \<Rightarrow> ('v, 'w, unit) prog" where
  "try_except_Exception_pass m tr =
     (case m tr of
        (Inl (c, e), tr') \<Rightarrow> if isinstance_Exception e then (Inr (), tr') else (Inl (c, e), tr')
      | (Inr a, tr') \<Rightarrow> (Inr (), tr'))"

text \<open>
  \<^verbatim>\<open>with mgr: body\<close>: the manager expression is evaluated and entered; the body runs; the
  manager's exit is called with the body's exception, which it swallows when it returns
  a true value, or with none.
\<close>

definition with_stmt ::
  "('v, 'w) world \<Rightarrow> ('v \<Rightarrow> bool) \<Rightarrow> ('v, 'w) call \<Rightarrow> ('v, 'w, 'a) prog \<Rightarrow> ('v, 'w, unit) prog" where
  "with_stmt w truthy mgr body =
     and_then (ext w mgr) (\<lambda>_.
     and_then (ext w ctx_enter) (\<lambda>_ tr.
       case body tr of
         (Inl (c, e), tr') \<Rightarrow>
           (case ext w (ctx_exit (Some e)) tr' of
              (Inl x, tr'') \<Rightarrow> (Inl x, tr'')
            | (Inr r, tr'') \<Rightarrow> if truthy r then (Inr (), tr'') else (Inl (c, e), tr''))
       | (Inr a, tr') \<Rightarrow>
           (case ext w (ctx_exit None) tr' of
              (Inl x, tr'') \<Rightarrow> (Inl x, tr'')
            | (Inr r, tr'') \<Rightarrow> (Inr (), tr''))))"

definition my_asset :: asset where
  "my_asset = \<lparr>resource_name = ''my_asset'', resource_type = ''well_plate''\<rparr>"

text \<open>\<open>now\<close> is \<^verbatim>\<open>str(datetime.datetime.now())\<close> and \<open>workflow_2\<close> the workflow definition
  built earlier in the cell.\<close>

definition resource_cleanup ::
  "('v, 'w) world \<Rightarrow> ('v \<Rightarrow> bool) \<Rightarrow> string \<Rightarrow> 'w \<Rightarrow> ('v, 'w, unit) prog" where
  "resource_cleanup w truthy now workflow_2 =
     and_then (ext w (add_resource my_asset)) (\<lambda>asset.
     and_then (try_except_Exception_pass (ext w (pop ''01JR8F3KF3BPZG1BEDK9DKXNWH''))) (\<lambda>_.
     and_then (ext w (push ''01JR8F3KF3BPZG1BEDK9DKXNWH'' asset)) (\<lambda>_.
     and_then (try_except_Exception_pass (ext w (pop ''01JR8F3KN3MA49C0HW0H727STM''))) (\<lambda>_.
     with_stmt w truthy
       (manage_experiment (''first_example_'' @ now) ''a run of my example experiment'')
       (ext w (start_workflow workflow_2))))))"

fun raised_by_pop :: "((('v, 'w) call \<times> exc) + 'a) \<Rightarrow> bool" where
  "raised_by_pop (Inl (pop i, e)) = True"
| "raised_by_pop r = False"

text \<open>Two worlds: in the first the user interrupts the kernel during every \<^verbatim>\<open>pop\<close>; in the
  second every \<^verbatim>\<open>pop\<close> fails with an HTTP error. All other calls return.\<close>

definition interrupted_world :: "(unit, unit) world" where
  "interrupted_world tr c =
     (case c of pop i \<Rightarrow> Inl (OtherBaseException ''KeyboardInterrupt'') | _ \<Rightarrow> Inr ())"

definition failing_pop_world :: "(unit, unit) world" where
  "failing_pop_world tr c =
     (case c of pop i \<Rightarrow> Inl (ExceptionInstance ''HTTPError'') | _ \<Rightarrow> Inr ())"

text \<open>A third world, in which every \<^verbatim>\<open>push\<close> fails with an HTTP error.\<close>

definition failing_push_world :: "(unit, unit) world" where
  "failing_push_world tr c =
     (case c of push i a \<Rightarrow> Inl (ExceptionInstance ''HTTPError'') | _ \<Rightarrow> Inr ())"


subsection \<open>The cells that submit and pause a workflow\<close>



subsection \<open>Delegation\<close>




section \<open>The diagrams: states and transitions\<close>

lemma state_names_workflow_diagram: "state_names workflow_diagram = the_seven_states"
  by code_simp

text \<open>
  Claim C3, as stated: each of the two diagrams has exactly the seven states queued,
  running, in_progress, paused, failed, cancelled, completed. It fails on the appended
  diagram.
\<close>

theorem diagrams_state_sets_counterexample:
  "\<not> (state_names workflow_diagram = the_seven_states \<and>
      state_names workflow_diagram_appended = the_seven_states)"
  by code_simp

text \<open>
  Claim C3, amended: the diagram of \<^verbatim>\<open>part_000\<close> has exactly the seven states; the
  appended diagram has exactly the six of them other than in_progress.
\<close>

theorem diagrams_state_sets:
  "state_names workflow_diagram = the_seven_states \<and>
   state_names workflow_diagram_appended = the_seven_states - {''in_progress''} \<and>
   card (state_names workflow_diagram) = 7 \<and>
   card (state_names workflow_diagram_appended) = 6"
  by code_simp

text \<open>
  Claim C2, as stated: the two diagrams have the same states and the same labelled
  transitions. They have neither.
\<close>

theorem diagrams_same_machine_counterexample:
  "\<not> same_machine workflow_diagram workflow_diagram_appended"
  by code_simp

text \<open>
  Claim C2, amended: the appended diagram has the states of the first without
  in_progress; the two share twelve edges, of which two carry the same label in both;
  the first has seven edges the appended lacks, and the appended four the first lacks.
\<close>

theorem diagrams_compared:
  "state_names workflow_diagram_appended = state_names workflow_diagram - {''in_progress''} \<and>
   labelled_transitions workflow_diagram \<inter> labelled_transitions workflow_diagram_appended =
     {(Star, State ''queued'', Some ''Workflow Submitted''),
      (State ''running'', State ''completed'', Some ''Succeeded Final Step'')} \<and>
   set (edges workflow_diagram) \<inter> set (edges workflow_diagram_appended) =
     {(Star, State ''queued''), (State ''queued'', State ''running''),
      (State ''queued'', State ''failed''), (State ''queued'', State ''cancelled''),
      (State ''running'', State ''cancelled''), (State ''running'', State ''completed''),
      (State ''paused'', State ''running''), (State ''running'', State ''paused''),
      (State ''failed'', State ''queued''), (State ''cancelled'', State ''queued''),
      (State ''queued'', State ''paused''), (State ''paused'', State ''queued'')} \<and>
   set (edges workflow_diagram) - set (edges workflow_diagram_appended) =
     {(State ''running'', State ''in_progress''), (State ''in_progress'', State ''running''),
      (State ''in_progress'', State ''paused''), (State ''in_progress'', State ''cancelled''),
      (State ''failed'', State ''in_progress''), (State ''cancelled'', State ''in_progress''),
      (State ''completed'', State ''queued'')} \<and>
   set (edges workflow_diagram_appended) - set (edges workflow_diagram) =
     {(State ''running'', State ''failed''), (State ''completed'', Star),
      (State ''cancelled'', Star), (State ''failed'', Star)}"
  by code_simp

text \<open>
  Claim C8: in the diagram of \<^verbatim>\<open>part_000\<close> the transitions out of paused are the two to
  running and to queued, there is none from paused to in_progress, and in_progress can
  be paused.
\<close>

theorem paused_transitions:
  "outgoing workflow_diagram (State ''paused'') =
     [(State ''running'', Some ''Resumed by User''),
      (State ''queued'', Some ''Resumed by User'')] \<and>
   \<not> step workflow_diagram (State ''paused'') (State ''in_progress'') \<and>
   step workflow_diagram (State ''in_progress'') (State ''paused'')"
  by code_simp

lemma every_state_has_outgoing:
  "list_all (\<lambda>s. outgoing workflow_diagram (State s) \<noteq> [])
     [''queued'', ''running'', ''in_progress'', ''paused'', ''failed'', ''cancelled'',
      ''completed'']"
  by code_simp

lemma steps_to_queued:
  "step workflow_diagram (State ''paused'') (State ''queued'')"
  "step workflow_diagram (State ''failed'') (State ''queued'')"
  "step workflow_diagram (State ''cancelled'') (State ''queued'')"
  "step workflow_diagram (State ''completed'') (State ''queued'')"
  by code_simp+

lemma steps_to_paused:
  "step workflow_diagram (State ''queued'') (State ''paused'')"
  "step workflow_diagram (State ''running'') (State ''paused'')"
  "step workflow_diagram (State ''in_progress'') (State ''paused'')"
  by code_simp+

lemma via_paused:
  assumes "step workflow_diagram a (State ''paused'')"
  shows "(step workflow_diagram)\<^sup>+\<^sup>+ a (State ''queued'')"
  using assms steps_to_queued(1) by (rule tranclp.intros(2)[OF tranclp.intros(1)])

lemma resubmitted_by_user:
  "list_all (\<lambda>s. (State ''queued'', Some ''Resubmitted by User'')
                   \<in> set (outgoing workflow_diagram (State s)))
     [''completed'', ''failed'', ''cancelled'']"
  by code_simp

text \<open>
  Claim C9: in the diagram of \<^verbatim>\<open>part_000\<close> every state has an outgoing transition and
  reaches queued along transitions, in one or more steps (hence also in zero or more);
  completed, failed and cancelled each have the transition to queued labelled
  "Resubmitted by User".
\<close>

theorem no_dead_end:
  "(\<forall>s \<in> state_names workflow_diagram.
      outgoing workflow_diagram (State s) \<noteq> [] \<and>
      (step workflow_diagram)\<^sup>+\<^sup>+ (State s) (State ''queued'') \<and>
      (step workflow_diagram)\<^sup>*\<^sup>* (State s) (State ''queued'')) \<and>
   card (state_names workflow_diagram) = 7 \<and>
   list_all (\<lambda>s. (State ''queued'', Some ''Resubmitted by User'')
                   \<in> set (outgoing workflow_diagram (State s)))
     [''completed'', ''failed'', ''cancelled'']"
proof -
  have reach: "(step workflow_diagram)\<^sup>+\<^sup>+ (State s) (State ''queued'')"
    if "s \<in> the_seven_states" for s
    using that steps_to_queued steps_to_paused via_paused
    unfolding the_seven_states_def by auto
  have out: "outgoing workflow_diagram (State s) \<noteq> []" if "s \<in> the_seven_states" for s
    using that every_state_has_outgoing unfolding the_seven_states_def by auto
  have seven: "card (state_names workflow_diagram) = 7" by code_simp
  have "\<forall>s \<in> state_names workflow_diagram.
      outgoing workflow_diagram (State s) \<noteq> [] \<and>
      (step workflow_diagram)\<^sup>+\<^sup>+ (State s) (State ''queued'') \<and>
      (step workflow_diagram)\<^sup>*\<^sup>* (State s) (State ''queued'')"
    unfolding state_names_workflow_diagram
    using reach out by (auto intro: tranclp_into_rtranclp)
  with seven resubmitted_by_user show ?thesis by blast
qed

theorem no_dead_end_witness:
  "''completed'' \<in> state_names workflow_diagram \<and>
   outgoing workflow_diagram (State ''completed'') \<noteq> [] \<and>
   (step workflow_diagram)\<^sup>+\<^sup>+ (State ''completed'') (State ''queued'')"
proof -
  have m: "''completed'' \<in> state_names workflow_diagram" by code_simp
  from no_dead_end m show ?thesis by blast
qed


section \<open>The example nodes: the action and the handlers\<close>

text \<open>
  Claim C1: for every string \<open>arg1\<close> and integer \<open>arg2\<close>, \<^verbatim>\<open>example_action\<close> returns the
  failed result carrying the error "arg2 must be non-negative" if and only if \<open>arg2\<close> is
  negative, and the succeeded result otherwise; besides, it only appends one message to
  the log.
\<close>

theorem example_action_result:
  "(fst (example_action arg1 arg2 self) = ActionFailed [''arg2 must be non-negative''])
     = (arg2 < 0) \<and>
   (fst (example_action arg1 arg2 self) = ActionSucceeded) = (0 \<le> arg2) \<and>
   fst (example_action arg1 arg2 self) =
     (if arg2 < 0 then ActionFailed [''arg2 must be non-negative''] else ActionSucceeded) \<and>
   snd (example_action arg1 arg2 self) =
     self\<lparr>logger := logger self @
       [Log (''Action called with arg1: '' @ arg1 @ '', arg2: '' @ str_int arg2)]\<rparr>"
  by (simp add: example_action_def Let_def)

lemma example_action_examples:
  "example_action ''Hello'' 42 \<lparr>logger = []\<rparr> =
     (ActionSucceeded, \<lparr>logger = [Log ''Action called with arg1: Hello, arg2: 42'']\<rparr>)"
  "example_action ''Hello'' (- 42) \<lparr>logger = []\<rparr> =
     (ActionFailed [''arg2 must be non-negative''],
      \<lparr>logger = [Log ''Action called with arg1: Hello, arg2: -42'']\<rparr>)"
  by (simp_all add: example_action_def Let_def str_int_def)

lemma reachable_single_key:
  "reachable self \<Longrightarrow> \<exists>v. node_state self = [''some_state_key'' \<mapsto> v]"
proof (induction rule: reachable.induct)
  case (created self)
  then show ?case by blast
next
  case (after_startup self)
  then show ?case by (simp add: startup_handler_def)
next
  case (after_shutdown self)
  then show ?case by (simp add: shutdown_handler_def)
next
  case (after_state self self')
  then show ?case by (auto simp: state_handler_def split: option.splits)
next
  case (after_status self self')
  then show ?case by (auto simp: status_handler_def split: option.splits if_splits)
qed

text \<open>On any dictionary that has the key, \<^verbatim>\<open>state_handler\<close> installs the dictionary with
  that key alone; a dictionary without the key makes both handlers raise.\<close>

lemma state_handler_installs_single_key:
  "node_state self ''some_state_key'' = Some v \<Longrightarrow>
   state_handler self = Inr (self\<lparr>node_state := [''some_state_key'' \<mapsto> v + 1]\<rparr>)"
  by (simp add: state_handler_def)

lemma handlers_raise_without_key:
  "node_state self ''some_state_key'' = None \<Longrightarrow>
   state_handler self = Inl (KeyError ''some_state_key'') \<and>
   status_handler self = Inl (KeyError ''some_state_key'')"
  by (simp add: state_handler_def status_handler_def)

text \<open>On the objects the class itself produces, \<^verbatim>\<open>node_state\<close> never holds another key, so
  there the replacement leaves nothing else to change.\<close>

lemma handlers_on_created_objects:
  assumes "reachable self"
  shows "\<exists>v self1 self2.
           node_state self ''some_state_key'' = Some v \<and>
           state_handler self = Inr self1 \<and>
           node_state self1 ''some_state_key'' = Some (v + 1) \<and>
           (\<forall>k. k \<noteq> ''some_state_key'' \<longrightarrow> node_state self1 k = node_state self k) \<and>
           node_status self1 = node_status self \<and> logger self1 = logger self \<and>
           status_handler self = Inr self2 \<and>
           busy (node_status self2) = even v \<and>
           node_state self2 = node_state self \<and> logger self2 = logger self"
proof -
  from reachable_single_key [OF assms] obtain v
    where v: "node_state self = [''some_state_key'' \<mapsto> v]" by blast
  then have k: "node_state self ''some_state_key'' = Some v" by simp
  show ?thesis
    using v k by (simp add: state_handler_def status_handler_def even_iff_mod_2_eq_zero)
qed




text \<open>
  Claim C7: the operations called on the node client in the notebook are exactly
  \<^verbatim>\<open>get_info\<close>, \<^verbatim>\<open>get_status\<close>, \<^verbatim>\<open>get_state\<close>, \<^verbatim>\<open>send_action\<close> and \<^verbatim>\<open>send_admin_command\<close>, and
  the calls of \<^verbatim>\<open>send_admin_command\<close> are two, the first with the argument "lock" and the
  second with "unlock".
\<close>

theorem client_operations:
  "set (map operation all_client_calls) =
     {''get_info'', ''get_status'', ''get_state'', ''send_action'', ''send_admin_command''} \<and>
   map arguments (filter (\<lambda>c. operation c = ''send_admin_command'') all_client_calls) =
     [[ArgStr ''lock''], [ArgStr ''unlock'']]"
  by code_simp

text \<open>
  Claim C6: the example experiment application has the url "http://localhost:8002/",
  and every node client of the node notebook is constructed with the url
  "http://localhost:2000".
\<close>

theorem endpoints:
  "url ExampleExperimentApplication = ''http://localhost:8002/'' \<and>
   set (map client_url node_notebook_cells) = {''http://localhost:2000''} \<and>
   length node_notebook_cells = 8"
  by code_simp


section \<open>The resource cleanup sequence: what the handlers catch\<close>

lemmas cleanup_defs =
  resource_cleanup_def and_then_def ext_def try_except_Exception_pass_def with_stmt_def

lemma pop_exception_is_not_Exception:
  "fst (resource_cleanup w truthy now wflow []) = Inl (pop i, e) \<Longrightarrow> \<not> isinstance_Exception e"
  by (auto simp: cleanup_defs split: sum.splits if_splits)

lemma cleanup_reaches_push:
  assumes "w [] (add_resource my_asset) = Inr a"
    and "\<forall>e. w [add_resource my_asset] (pop ''01JR8F3KF3BPZG1BEDK9DKXNWH'') = Inl e
           \<longrightarrow> isinstance_Exception e"
  shows "prefix [add_resource my_asset, pop ''01JR8F3KF3BPZG1BEDK9DKXNWH'',
                 push ''01JR8F3KF3BPZG1BEDK9DKXNWH'' a]
           (snd (resource_cleanup w truthy now wflow []))"
  using assms by (auto simp: cleanup_defs split: sum.splits if_splits)

lemma cleanup_reaches_start_workflow:
  assumes "w [] (add_resource my_asset) = Inr a"
    and "\<forall>e. w [add_resource my_asset] (pop ''01JR8F3KF3BPZG1BEDK9DKXNWH'') = Inl e
           \<longrightarrow> isinstance_Exception e"
    and "w [add_resource my_asset, pop ''01JR8F3KF3BPZG1BEDK9DKXNWH'']
           (push ''01JR8F3KF3BPZG1BEDK9DKXNWH'' a) = Inr v"
    and "\<forall>e. w [add_resource my_asset, pop ''01JR8F3KF3BPZG1BEDK9DKXNWH'',
               push ''01JR8F3KF3BPZG1BEDK9DKXNWH'' a] (pop ''01JR8F3KN3MA49C0HW0H727STM'') = Inl e
           \<longrightarrow> isinstance_Exception e"
    and "w [add_resource my_asset, pop ''01JR8F3KF3BPZG1BEDK9DKXNWH'',
            push ''01JR8F3KF3BPZG1BEDK9DKXNWH'' a, pop ''01JR8F3KN3MA49C0HW0H727STM'']
           (manage_experiment (''first_example_'' @ now) ''a run of my example experiment'') = Inr m"
    and "w [add_resource my_asset, pop ''01JR8F3KF3BPZG1BEDK9DKXNWH'',
            push ''01JR8F3KF3BPZG1BEDK9DKXNWH'' a, pop ''01JR8F3KN3MA49C0HW0H727STM'',
            manage_experiment (''first_example_'' @ now) ''a run of my example experiment'']
           ctx_enter = Inr x"
  shows "prefix [add_resource my_asset, pop ''01JR8F3KF3BPZG1BEDK9DKXNWH'',
                 push ''01JR8F3KF3BPZG1BEDK9DKXNWH'' a, pop ''01JR8F3KN3MA49C0HW0H727STM'',
                 manage_experiment (''first_example_'' @ now) ''a run of my example experiment'',
                 ctx_enter, start_workflow wflow]
           (snd (resource_cleanup w truthy now wflow []))"
  using assms by (auto simp: cleanup_defs split: sum.splits if_splits)

lemma first_pop_outside_Exception_propagates:
  assumes "w [] (add_resource my_asset) = Inr a"
    and "w [add_resource my_asset] (pop ''01JR8F3KF3BPZG1BEDK9DKXNWH'') = Inl e"
    and "\<not> isinstance_Exception e"
  shows "resource_cleanup w truthy now wflow [] =
           (Inl (pop ''01JR8F3KF3BPZG1BEDK9DKXNWH'', e),
            [add_resource my_asset, pop ''01JR8F3KF3BPZG1BEDK9DKXNWH''])"
  using assms by (simp add: cleanup_defs)

lemma second_pop_outside_Exception_propagates:
  assumes "w [] (add_resource my_asset) = Inr a"
    and "\<forall>e. w [add_resource my_asset] (pop ''01JR8F3KF3BPZG1BEDK9DKXNWH'') = Inl e
           \<longrightarrow> isinstance_Exception e"
    and "w [add_resource my_asset, pop ''01JR8F3KF3BPZG1BEDK9DKXNWH'']
           (push ''01JR8F3KF3BPZG1BEDK9DKXNWH'' a) = Inr v"
    and "w [add_resource my_asset, pop ''01JR8F3KF3BPZG1BEDK9DKXNWH'',
            push ''01JR8F3KF3BPZG1BEDK9DKXNWH'' a] (pop ''01JR8F3KN3MA49C0HW0H727STM'') = Inl e"
    and "\<not> isinstance_Exception e"
  shows "resource_cleanup w truthy now wflow [] =
           (Inl (pop ''01JR8F3KN3MA49C0HW0H727STM'', e),
            [add_resource my_asset, pop ''01JR8F3KF3BPZG1BEDK9DKXNWH'',
             push ''01JR8F3KF3BPZG1BEDK9DKXNWH'' a, pop ''01JR8F3KN3MA49C0HW0H727STM''])"
  using assms by (auto simp: cleanup_defs split: sum.splits)

text \<open>
  The sequence goes on after \<^verbatim>\<open>push\<close> only when \<^verbatim>\<open>push\<close> returns: \<^verbatim>\<open>push\<close> stands
  outside both \<^verbatim>\<open>try\<close> blocks, and when it raises, the second \<^verbatim>\<open>pop\<close> and the workflow
  submission never run.
\<close>

lemma push_failure_ends_cleanup:
  "resource_cleanup failing_push_world (\<lambda>r. False) ''t'' () [] =
     (Inl (push ''01JR8F3KF3BPZG1BEDK9DKXNWH'' (), ExceptionInstance ''HTTPError''),
      [add_resource my_asset, pop ''01JR8F3KF3BPZG1BEDK9DKXNWH'',
       push ''01JR8F3KF3BPZG1BEDK9DKXNWH'' ()])"
  by (simp add: cleanup_defs failing_push_world_def)

text \<open>
  Claim C4, as stated: every exception raised by \<^verbatim>\<open>pop\<close> is caught, so that none
  propagates and \<^verbatim>\<open>push\<close> follows. When the kernel is interrupted during the first
  \<^verbatim>\<open>pop\<close>, the \<^verbatim>\<open>KeyboardInterrupt\<close> leaves the sequence and \<^verbatim>\<open>push\<close> is never called.
\<close>

theorem cleanup_counterexample:
  "raised_by_pop (fst (resource_cleanup interrupted_world (\<lambda>r. False) ''t'' () [])) \<and>
   push ''01JR8F3KF3BPZG1BEDK9DKXNWH'' () \<notin>
     set (snd (resource_cleanup interrupted_world (\<lambda>r. False) ''t'' () []))"
  by (simp add: resource_cleanup_def and_then_def ext_def try_except_Exception_pass_def
      interrupted_world_def)

text \<open>
  Claim C4, amended: every exception raised by \<^verbatim>\<open>pop\<close> that is an instance of
  \<^verbatim>\<open>Exception\<close> is caught and discarded, so an exception of \<^verbatim>\<open>pop\<close> that leaves the
  sequence is never one; an exception raised by the first or the second \<^verbatim>\<open>pop\<close> that is
  not an instance of \<^verbatim>\<open>Exception\<close> leaves the sequence, with that \<^verbatim>\<open>pop\<close> as its last
  call; when \<^verbatim>\<open>add_resource\<close> returns and the first \<^verbatim>\<open>pop\<close> returns or
  raises an instance of \<^verbatim>\<open>Exception\<close>, \<^verbatim>\<open>push\<close> is the next call; when moreover \<^verbatim>\<open>push\<close>
  returns, the second \<^verbatim>\<open>pop\<close> returns or raises an instance of \<^verbatim>\<open>Exception\<close>, and
  \<^verbatim>\<open>manage_experiment\<close> returns and is entered, the workflow is submitted next.
\<close>

theorem cleanup_continues:
  "(\<forall>i e. fst (resource_cleanup w truthy now wflow []) = Inl (pop i, e)
       \<longrightarrow> \<not> isinstance_Exception e) \<and>
   (w [] (add_resource my_asset) = Inr a \<and>
    (\<forall>e. w [add_resource my_asset] (pop ''01JR8F3KF3BPZG1BEDK9DKXNWH'') = Inl e
       \<longrightarrow> isinstance_Exception e)
    \<longrightarrow> prefix [add_resource my_asset, pop ''01JR8F3KF3BPZG1BEDK9DKXNWH'',
                push ''01JR8F3KF3BPZG1BEDK9DKXNWH'' a]
          (snd (resource_cleanup w truthy now wflow []))) \<and>
   (w [] (add_resource my_asset) = Inr a \<and>
    (\<forall>e. w [add_resource my_asset] (pop ''01JR8F3KF3BPZG1BEDK9DKXNWH'') = Inl e
       \<longrightarrow> isinstance_Exception e) \<and>
    w [add_resource my_asset, pop ''01JR8F3KF3BPZG1BEDK9DKXNWH'']
      (push ''01JR8F3KF3BPZG1BEDK9DKXNWH'' a) = Inr v \<and>
    (\<forall>e. w [add_resource my_asset, pop ''01JR8F3KF3BPZG1BEDK9DKXNWH'',
            push ''01JR8F3KF3BPZG1BEDK9DKXNWH'' a] (pop ''01JR8F3KN3MA49C0HW0H727STM'') = Inl e
       \<longrightarrow> isinstance_Exception e) \<and>
    w [add_resource my_asset, pop ''01JR8F3KF3BPZG1BEDK9DKXNWH'',
       push ''01JR8F3KF3BPZG1BEDK9DKXNWH'' a, pop ''01JR8F3KN3MA49C0HW0H727STM'']
      (manage_experiment (''first_example_'' @ now) ''a run of my example experiment'') = Inr m \<and>
    w [add_resource my_asset, pop ''01JR8F3KF3BPZG1BEDK9DKXNWH'',
       push ''01JR8F3KF3BPZG1BEDK9DKXNWH'' a, pop ''01JR8F3KN3MA49C0HW0H727STM'',
       manage_experiment (''first_example_'' @ now) ''a run of my example experiment'']
      ctx_enter = Inr x
    \<longrightarrow> prefix [add_resource my_asset, pop ''01JR8F3KF3BPZG1BEDK9DKXNWH'',
                push ''01JR8F3KF3BPZG1BEDK9DKXNWH'' a, pop ''01JR8F3KN3MA49C0HW0H727STM'',
                manage_experiment (''first_example_'' @ now) ''a run of my example experiment'',
                ctx_enter, start_workflow wflow]
          (snd (resource_cleanup w truthy now wflow []))) \<and>
   (\<forall>e. w [] (add_resource my_asset) = Inr a \<and>
        w [add_resource my_asset] (pop ''01JR8F3KF3BPZG1BEDK9DKXNWH'') = Inl e \<and>
        \<not> isinstance_Exception e
      \<longrightarrow> resource_cleanup w truthy now wflow [] =
            (Inl (pop ''01JR8F3KF3BPZG1BEDK9DKXNWH'', e),
             [add_resource my_asset, pop ''01JR8F3KF3BPZG1BEDK9DKXNWH''])) \<and>
   (\<forall>e. w [] (add_resource my_asset) = Inr a \<and>
        (\<forall>e'. w [add_resource my_asset] (pop ''01JR8F3KF3BPZG1BEDK9DKXNWH'') = Inl e'
           \<longrightarrow> isinstance_Exception e') \<and>
        w [add_resource my_asset, pop ''01JR8F3KF3BPZG1BEDK9DKXNWH'']
          (push ''01JR8F3KF3BPZG1BEDK9DKXNWH'' a) = Inr v \<and>
        w [add_resource my_asset, pop ''01JR8F3KF3BPZG1BEDK9DKXNWH'',
           push ''01JR8F3KF3BPZG1BEDK9DKXNWH'' a] (pop ''01JR8F3KN3MA49C0HW0H727STM'') = Inl e \<and>
        \<not> isinstance_Exception e
      \<longrightarrow> resource_cleanup w truthy now wflow [] =
            (Inl (pop ''01JR8F3KN3MA49C0HW0H727STM'', e),
             [add_resource my_asset, pop ''01JR8F3KF3BPZG1BEDK9DKXNWH'',
              push ''01JR8F3KF3BPZG1BEDK9DKXNWH'' a, pop ''01JR8F3KN3MA49C0HW0H727STM'']))"
proof -
  have caught: "\<forall>i e. fst (resource_cleanup w truthy now wflow []) = Inl (pop i, e)
       \<longrightarrow> \<not> isinstance_Exception e"
    using pop_exception_is_not_Exception [where w = w and truthy = truthy and now = now
      and wflow = wflow] by blast
  have first: "\<forall>e. w [] (add_resource my_asset) = Inr a \<and>
        w [add_resource my_asset] (pop ''01JR8F3KF3BPZG1BEDK9DKXNWH'') = Inl e \<and>
        \<not> isinstance_Exception e
      \<longrightarrow> resource_cleanup w truthy now wflow [] =
            (Inl (pop ''01JR8F3KF3BPZG1BEDK9DKXNWH'', e),
             [add_resource my_asset, pop ''01JR8F3KF3BPZG1BEDK9DKXNWH''])"
    using first_pop_outside_Exception_propagates [where w = w and a = a and truthy = truthy
      and now = now and wflow = wflow] by blast
  have second: "\<forall>e. w [] (add_resource my_asset) = Inr a \<and>
        (\<forall>e'. w [add_resource my_asset] (pop ''01JR8F3KF3BPZG1BEDK9DKXNWH'') = Inl e'
           \<longrightarrow> isinstance_Exception e') \<and>
        w [add_resource my_asset, pop ''01JR8F3KF3BPZG1BEDK9DKXNWH'']
          (push ''01JR8F3KF3BPZG1BEDK9DKXNWH'' a) = Inr v \<and>
        w [add_resource my_asset, pop ''01JR8F3KF3BPZG1BEDK9DKXNWH'',
           push ''01JR8F3KF3BPZG1BEDK9DKXNWH'' a] (pop ''01JR8F3KN3MA49C0HW0H727STM'') = Inl e \<and>
        \<not> isinstance_Exception e
      \<longrightarrow> resource_cleanup w truthy now wflow [] =
            (Inl (pop ''01JR8F3KN3MA49C0HW0H727STM'', e),
             [add_resource my_asset, pop ''01JR8F3KF3BPZG1BEDK9DKXNWH'',
              push ''01JR8F3KF3BPZG1BEDK9DKXNWH'' a, pop ''01JR8F3KN3MA49C0HW0H727STM''])"
    using second_pop_outside_Exception_propagates [where w = w and a = a and v = v
      and truthy = truthy and now = now and wflow = wflow] by blast
  from caught first second
    cleanup_reaches_push [where w = w and a = a and truthy = truthy and now = now
      and wflow = wflow]
    cleanup_reaches_start_workflow [where w = w and a = a and v = v and now = now and m = m
      and x = x and truthy = truthy and wflow = wflow]
  show ?thesis by blast
qed

theorem cleanup_continues_witness:
  "failing_pop_world [] (add_resource my_asset) = Inr () \<and>
   failing_pop_world [add_resource my_asset] (pop ''01JR8F3KF3BPZG1BEDK9DKXNWH'')
     = Inl (ExceptionInstance ''HTTPError'') \<and>
   isinstance_Exception (ExceptionInstance ''HTTPError'') \<and>
   \<not> raised_by_pop (fst (resource_cleanup failing_pop_world (\<lambda>r. False) ''t'' () [])) \<and>
   prefix [add_resource my_asset, pop ''01JR8F3KF3BPZG1BEDK9DKXNWH'',
           push ''01JR8F3KF3BPZG1BEDK9DKXNWH'' (), pop ''01JR8F3KN3MA49C0HW0H727STM'',
           manage_experiment ''first_example_t'' ''a run of my example experiment'',
           ctx_enter, start_workflow ()]
     (snd (resource_cleanup failing_pop_world (\<lambda>r. False) ''t'' () [])) \<and>
   interrupted_world [] (add_resource my_asset) = Inr () \<and>
   interrupted_world [add_resource my_asset] (pop ''01JR8F3KF3BPZG1BEDK9DKXNWH'')
     = Inl (OtherBaseException ''KeyboardInterrupt'') \<and>
   \<not> isinstance_Exception (OtherBaseException ''KeyboardInterrupt'') \<and>
   resource_cleanup interrupted_world (\<lambda>r. False) ''t'' () [] =
     (Inl (pop ''01JR8F3KF3BPZG1BEDK9DKXNWH'', OtherBaseException ''KeyboardInterrupt''),
      [add_resource my_asset, pop ''01JR8F3KF3BPZG1BEDK9DKXNWH''])"
proof -
  have w: "failing_pop_world tr (pop i) = Inl (ExceptionInstance ''HTTPError'')"
    "failing_pop_world tr (add_resource s) = Inr ()"
    "failing_pop_world tr (push i ()) = Inr ()"
    "failing_pop_world tr (manage_experiment n d) = Inr ()"
    "failing_pop_world tr ctx_enter = Inr ()" for tr i s n d
    by (simp_all add: failing_pop_world_def)
  have u: "interrupted_world tr (pop i) = Inl (OtherBaseException ''KeyboardInterrupt'')"
    "interrupted_world tr (add_resource s) = Inr ()" for tr i s
    by (simp_all add: interrupted_world_def)
  have r: "\<not> raised_by_pop (fst (resource_cleanup failing_pop_world (\<lambda>r. False) ''t'' () []))"
    by (simp add: cleanup_defs failing_pop_world_def)
  note P = cleanup_continues [where w = failing_pop_world and truthy = "\<lambda>r. False"
        and now = "''t''" and wflow = "()" and a = "()" and v = "()" and m = "()"
        and x = "()"]
  note I = cleanup_continues [where w = interrupted_world and truthy = "\<lambda>r. False"
        and now = "''t''" and wflow = "()" and a = "()" and v = "()" and m = "()"
        and x = "()"]
  have reaches: "prefix [add_resource my_asset, pop ''01JR8F3KF3BPZG1BEDK9DKXNWH'',
           push ''01JR8F3KF3BPZG1BEDK9DKXNWH'' (), pop ''01JR8F3KN3MA49C0HW0H727STM'',
           manage_experiment ''first_example_t'' ''a run of my example experiment'',
           ctx_enter, start_workflow ()]
     (snd (resource_cleanup failing_pop_world (\<lambda>r. False) ''t'' () []))"
    using P [THEN conjunct2, THEN conjunct2, THEN conjunct1] by (simp add: w)
  have leaves: "resource_cleanup interrupted_world (\<lambda>r. False) ''t'' () [] =
     (Inl (pop ''01JR8F3KF3BPZG1BEDK9DKXNWH'', OtherBaseException ''KeyboardInterrupt''),
      [add_resource my_asset, pop ''01JR8F3KF3BPZG1BEDK9DKXNWH''])"
    using I [THEN conjunct2, THEN conjunct2, THEN conjunct2, THEN conjunct1] by (simp add: u)
  show ?thesis
    using reaches leaves r by (simp add: w u)
qed

section \<open>Delegation to the framework and the logic of the repository\<close>











end
